theory Spec2Isabelle
  imports Main "HOL-Library.AList"
begin

section \<open>Values and objects\<close>

text \<open>
  A string of the program is a \<^typ>\<open>string\<close>; each element stands for one code unit,
  the unit that \<^verbatim>\<open>.length\<close> and the validation library's \<^verbatim>\<open>min\<close>/\<^verbatim>\<open>max\<close> count.
  A plain object (the session identity, the row returned by a service) is a finite map
  from property names to values; a property that is absent reads as \<^verbatim>\<open>undefined\<close>
  (\<^term>\<open>None\<close>).
\<close>

datatype jsval = JStr string | JNull

type_synonym jsobj = "string \<rightharpoonup> jsval"

section \<open>The credential store\<close>

text \<open>
  \<^verbatim>\<open>model User\<close> of the schema: the columns the flows read or write. The row's key
  \<^verbatim>\<open>id\<close> is the key of the table.
\<close>

datatype Role = USER | ADMIN

record User =
  u_email :: string
  u_password :: string
  u_name :: string
  u_image :: "string option"
  u_role :: Role

text \<open>
  The calls a handler issues against \<^verbatim>\<open>context.db.user\<close> are logged, so that
  ``no store access'' is a statement about the log.
\<close>

datatype db_call =
    FindUniqueById string
  | FindUniqueByEmail string
  | UpdatePasswordById string string

fun call_target :: "db_call \<Rightarrow> string" where
  "call_target (FindUniqueById k) = k"
| "call_target (FindUniqueByEmail e) = e"
| "call_target (UpdatePasswordById k h) = k"

fun is_write :: "db_call \<Rightarrow> bool" where
  "is_write (UpdatePasswordById k h) = True"
| "is_write _ = False"

datatype exn = StoreFault | RecordNotFound | InvalidArgument

text \<open>
  The world a request runs in: the user table, the log of store calls, a schedule of
  store faults (the head says whether the next store call rejects; an exhausted schedule
  means no fault) and the salts the hashing library will draw.
\<close>

record world =
  users :: "(string \<times> User) list"
  calls :: "db_call list"
  faults :: "bool list"
  salts :: "string list"

definition next_fault :: "world \<Rightarrow> bool" where
  "next_fault w = (case faults w of [] \<Rightarrow> False | f # _ \<Rightarrow> f)"

definition issue :: "db_call \<Rightarrow> world \<Rightarrow> world" where
  "issue c w = w\<lparr>calls := calls w @ [c], faults := tl (faults w)\<rparr>"

text \<open>
  \<^verbatim>\<open>db.user.findUnique({ where: { id }, select: { password: true } })\<close>:
  the stored hash of the row, or \<^verbatim>\<open>null\<close>.
\<close>

definition findUnique_password :: "world \<Rightarrow> string \<Rightarrow> (exn + string option) \<times> world" where
  "findUnique_password w k =
     (let w' = issue (FindUniqueById k) w in
      if next_fault w then (Inl StoreFault, w')
      else (Inr (map_option u_password (map_of (users w) k)), w'))"

text \<open>
  \<^verbatim>\<open>db.user.update({ where: { id }, data: { password } })\<close>: rewrites the
  password column of the one row with that key; the call rejects when there is none.
\<close>

definition update_password :: "world \<Rightarrow> string \<Rightarrow> string \<Rightarrow> (exn + unit) \<times> world" where
  "update_password w k h =
     (let w' = issue (UpdatePasswordById k h) w in
      if next_fault w then (Inl StoreFault, w')
      else (case map_of (users w) k of
              None \<Rightarrow> (Inl RecordNotFound, w')
            | Some r \<Rightarrow> (Inr (), w'\<lparr>users := AList.update k (r\<lparr>u_password := h\<rparr>) (users w)\<rparr>)))"

section \<open>The password hasher\<close>

text \<open>
  The hashing library is a collaborator of the program: \<^verbatim>\<open>bcrypt.compare(s, digest)\<close>
  and \<^verbatim>\<open>bcrypt.hash(s, rounds)\<close>, the latter with the salt it draws made explicit.
\<close>

record bcrypt =
  compare :: "string \<Rightarrow> string \<Rightarrow> bool"
  hash :: "string \<Rightarrow> nat \<Rightarrow> string \<Rightarrow> string"

definition gen_salt :: "world \<Rightarrow> string \<times> world" where
  "gen_salt w = (case salts w of [] \<Rightarrow> ([], w) | s # ss \<Rightarrow> (s, w\<lparr>salts := ss\<rparr>))"

section \<open>updatePassword\<close>

record UpdatePasswordInput =
  userId :: string
  currentPassword :: string
  newPassword :: string

text \<open>What \<^verbatim>\<open>updatePassword\<close> resolves to: \<^verbatim>\<open>{ error: { message } }\<close> or \<^verbatim>\<open>null\<close>.\<close>

datatype update_result = Error string | Null

definition updatePassword ::
  "bcrypt \<Rightarrow> world \<Rightarrow> UpdatePasswordInput \<Rightarrow> (exn + update_result) \<times> world" where
  "updatePassword B w request =
     (case findUnique_password w (userId request) of
        (Inl e, w1) \<Rightarrow> (Inl e, w1)
      | (Inr None, w1) \<Rightarrow> (Inr (Error ''User not found''), w1)
      | (Inr (Some stored), w1) \<Rightarrow>
          if \<not> compare B (currentPassword request) stored
          then (Inr (Error ''Current password is incorrect''), w1)
          else (case gen_salt w1 of (salt, w2) \<Rightarrow>
                  (let hashedPassword = hash B (newPassword request) 12 salt in
                   case update_password w2 (userId request) hashedPassword of
                     (Inl e, w3) \<Rightarrow> (Inl e, w3)
                   | (Inr _, w3) \<Rightarrow> (Inr Null, w3))))"

section \<open>Form data, schemas and submissions\<close>

text \<open>
  A form carries text fields by name. The form library parses it against a schema of the
  validation library; before validating it reads an empty text field as a missing one.
\<close>

type_synonym form_data = "string \<rightharpoonup> string"

type_synonym field_errors = "(string \<times> string list) list"

definition coerceString :: "string option \<Rightarrow> string option" where
  "coerceString v = (case v of Some [] \<Rightarrow> None | _ \<Rightarrow> v)"

datatype 'v submission = Submission (payload: form_data) (result: "field_errors + 'v")

definition parseWithZod ::
  "((string \<Rightarrow> string option) \<Rightarrow> field_errors + 'v) \<Rightarrow> form_data \<Rightarrow> 'v submission" where
  "parseWithZod schema fd = Submission fd (schema (\<lambda>name. coerceString (fd name)))"

text \<open>\<^verbatim>\<open>submission.reply(options)\<close>: the payload, the submission's own errors, the options.\<close>

datatype reply_options = NoOptions | ResetForm | FieldErrors field_errors

datatype reply = Reply form_data field_errors reply_options

definition submission_reply :: "'v submission \<Rightarrow> reply_options \<Rightarrow> reply" where
  "submission_reply s opts =
     Reply (payload s) (case result s of Inl e \<Rightarrow> e | Inr _ \<Rightarrow> []) opts"

text \<open>The issues of one field, kept only when there are any.\<close>

definition field :: "string \<Rightarrow> string list \<Rightarrow> field_errors" where
  "field name issues = (if issues = [] then [] else [(name, issues)])"

text \<open>\<^verbatim>\<open>/[A-Za-z]/.test(password) && /[0-9]/.test(password)\<close>\<close>

definition is_letter :: "char \<Rightarrow> bool" where
  "is_letter c = (c \<in> set ''ABCDEFGHIJKLMNOPQRSTUVWXYZabcdefghijklmnopqrstuvwxyz'')"

definition is_digit :: "char \<Rightarrow> bool" where
  "is_digit c = (c \<in> set ''0123456789'')"

definition letter_and_number :: "string \<Rightarrow> bool" where
  "letter_and_number password = (list_ex is_letter password \<and> list_ex is_digit password)"

text \<open>
  \<^verbatim>\<open>.min(8, ...).max(255, ...).refine(...)\<close> on a string that is present: every check
  that fails contributes its message.
\<close>

definition password_issues :: "string \<Rightarrow> string list" where
  "password_issues p =
     (if length p < 8 then [''Password must be at least 8 characters''] else []) @
     (if length p > 255 then [''Password must be less than 255 characters''] else []) @
     (if letter_and_number p then []
      else [''Password must contain at least one letter and one number''])"

subsection \<open>passwordChangeSchema\<close>

record PasswordChange =
  v_currentPassword :: string
  v_newPassword :: string
  v_confirmNewPassword :: string

text \<open>
  A missing field fails with its \<^verbatim>\<open>required_error\<close> and stops the object; otherwise the
  object-level refinement compares the new password with its confirmation.
\<close>

definition passwordChangeSchema :: "(string \<Rightarrow> string option) \<Rightarrow> field_errors + PasswordChange" where
  "passwordChangeSchema input =
     (case (input ''currentPassword'', input ''newPassword'', input ''confirmNewPassword'') of
        (Some c, Some p, Some q) \<Rightarrow>
          (let errs = field ''newPassword'' (password_issues p) @
                      field ''confirmNewPassword''
                        (if p = q then [] else [''Passwords don't match''])
           in if errs = [] then
                Inr \<lparr>v_currentPassword = c, v_newPassword = p, v_confirmNewPassword = q\<rparr>
              else Inl errs)
      | (c, p, q) \<Rightarrow>
          Inl (field ''currentPassword''
                 (case c of None \<Rightarrow> [''Current password is required''] | Some _ \<Rightarrow> []) @
               field ''newPassword''
                 (case p of None \<Rightarrow> [''New password is required'']
                  | Some p' \<Rightarrow> password_issues p') @
               field ''confirmNewPassword''
                 (case q of None \<Rightarrow> [''Please confirm your new password'']
                  | Some _ \<Rightarrow> [])))"

subsection \<open>signInSchema\<close>

record SignIn =
  v_email :: string
  v_password :: string

text \<open>
  The validation library's test for an e-mail address is a parameter, \<open>is_email\<close>.
\<close>

definition signInSchema ::
  "(string \<Rightarrow> bool) \<Rightarrow> (string \<Rightarrow> string option) \<Rightarrow> field_errors + SignIn" where
  "signInSchema is_email input =
     (let errs =
        field ''email''
          (case input ''email'' of
             None \<Rightarrow> [''Email is required'']
           | Some e \<Rightarrow>
               (if is_email e then [] else [''Please enter a valid email address'']) @
               (if length e > 255 then [''Email must be less than 255 characters''] else [])) @
        field ''password''
          (case input ''password'' of
             None \<Rightarrow> [''Password is required'']
           | Some p \<Rightarrow> password_issues p)
      in case (errs, input ''email'', input ''password'') of
           ([], Some e, Some p) \<Rightarrow> Inr \<lparr>v_email = e, v_password = p\<rparr>
         | _ \<Rightarrow> Inl errs)"

section \<open>Responses, sessions and the authenticator\<close>

record ResponseInit =
  status :: nat
  headers :: "(string \<times> string) list"

text \<open>
  What an action returns: a reply as it is, a reply wrapped by \<^verbatim>\<open>json(data, init)\<close>, or
  the identity the authenticator resolved to.
\<close>

datatype action_return = Bare reply | Json reply ResponseInit | Identity jsobj

definition json :: "reply \<Rightarrow> action_return" where
  "json data = Json data \<lparr>status = 200, headers = []\<rparr>"

type_synonym session = "string \<rightharpoonup> jsobj"

record SessionStorage =
  getSession :: "string option \<Rightarrow> session"
  commitSession :: "session \<Rightarrow> string"

record Authenticator =
  sessionStorage :: SessionStorage
  sessionKey :: string

record Request =
  cookie :: "string option"
  formData :: form_data

record Params =
  param_userId :: string

record ActionFunctionArgs =
  request :: Request
  params :: Params

text \<open>
  Modelled from the spec: \<^verbatim>\<open>authenticator.isAuthenticated(request)\<close> of the
  module \<^verbatim>\<open>services/auth/auth.server\<close>, whose source is missing. It reads the session
  of the request's cookie and answers the identity stored under the session key, or
  \<^verbatim>\<open>null\<close>; it does not touch the credential store.
\<close>

definition isAuthenticated :: "Authenticator \<Rightarrow> Request \<Rightarrow> jsobj option" where
  "isAuthenticated A req = getSession (sessionStorage A) (cookie req) (sessionKey A)"

section \<open>The password-change action\<close>

text \<open>
  The action receives \<^verbatim>\<open>{ request, context }\<close> only. The identity's \<^verbatim>\<open>id\<close> is a string
  by the type of the identity; were it anything else, the store would reject the lookup
  inside the \<^verbatim>\<open>try\<close> block.
\<close>

definition password_change_action ::
  "bcrypt \<Rightarrow> Authenticator \<Rightarrow> world \<Rightarrow> ActionFunctionArgs \<Rightarrow> action_return \<times> world" where
  "password_change_action B A w args =
     (let user = isAuthenticated A (request args);
          submission = parseWithZod passwordChangeSchema (formData (request args))
      in case result submission of
           Inl _ \<Rightarrow> (Bare (submission_reply submission NoOptions), w)
         | Inr v \<Rightarrow>
             (case user of
                None \<Rightarrow>
                  (json (submission_reply submission
                     (FieldErrors [(''currentPassword'',
                        [''You must be signed in to change your password''])])), w)
              | Some u \<Rightarrow>
                  (case (case u ''id'' of
                           Some (JStr uid) \<Rightarrow>
                             updatePassword B w
                               \<lparr>userId = uid,
                                currentPassword = v_currentPassword v,
                                newPassword = v_newPassword v\<rparr>
                         | _ \<Rightarrow> (Inl InvalidArgument, w)) of
                     (Inr _, w') \<Rightarrow> (json (submission_reply submission ResetForm), w')
                   | (Inl _, w') \<Rightarrow>
                       (json (submission_reply submission
                          (FieldErrors [(''currentPassword'',
                             [''Current password is incorrect''])])), w'))))"

section \<open>The sign-in action\<close>

text \<open>What a rejected promise carries: a response, an error with its message, a store fault.\<close>

datatype thrown = ThrownResponse ResponseInit | ThrownError string | ThrownExn exn

datatype auth_outcome = Resolved jsobj | Rejected thrown

text \<open>\<^verbatim>\<open>db.user.findUnique({ where: { email } })\<close>: e-mail addresses are unique.\<close>

definition findUnique_email :: "world \<Rightarrow> string \<Rightarrow> (exn + (string \<times> User) option) \<times> world" where
  "findUnique_email w e =
     (let w' = issue (FindUniqueByEmail e) w in
      if next_fault w then (Inl StoreFault, w')
      else (Inr (find (\<lambda>(k, r). u_email r = e) (users w)), w'))"

text \<open>The identity of a user: id, email, name, role, image.\<close>

definition identity_of :: "string \<Rightarrow> User \<Rightarrow> jsobj" where
  "identity_of k r =
     [''id'' \<mapsto> JStr k,
      ''email'' \<mapsto> JStr (u_email r),
      ''name'' \<mapsto> JStr (u_name r),
      ''role'' \<mapsto> JStr (case u_role r of USER \<Rightarrow> ''USER'' | ADMIN \<Rightarrow> ''ADMIN''),
      ''image'' \<mapsto> (case u_image r of None \<Rightarrow> JNull | Some i \<Rightarrow> JStr i)]"

text \<open>
  Modelled from the spec: \<^verbatim>\<open>authenticator.authenticate(strategy, request, options)\<close> of the
  module \<^verbatim>\<open>services/auth/auth.server\<close>, whose source is missing. Given the submitted
  credentials it looks the user up by e-mail and verifies the password with the hasher.
  On success it establishes a session holding the identity and, redirect-on-success being
  configured, rejects with a 302 response that carries the committed cookie (it resolves
  to the identity otherwise). On failure it rejects with the generic error
  ``Invalid email or password'', the same for an unknown e-mail and for a wrong password.
\<close>

definition authenticate ::
  "bcrypt \<Rightarrow> Authenticator \<Rightarrow> world \<Rightarrow> Request \<Rightarrow> string option \<Rightarrow> auth_outcome \<times> world" where
  "authenticate B A w req successRedirect =
     (case (formData req ''email'', formData req ''password'') of
        (Some e, Some p) \<Rightarrow>
          (case findUnique_email w e of
             (Inl x, w1) \<Rightarrow> (Rejected (ThrownExn x), w1)
           | (Inr None, w1) \<Rightarrow> (Rejected (ThrownError ''Invalid email or password''), w1)
           | (Inr (Some (k, r)), w1) \<Rightarrow>
               if \<not> compare B p (u_password r)
               then (Rejected (ThrownError ''Invalid email or password''), w1)
               else (let identity = identity_of k r;
                         session = (getSession (sessionStorage A) (cookie req))
                                     (sessionKey A \<mapsto> identity);
                         committed = commitSession (sessionStorage A) session
                     in case successRedirect of
                          Some target \<Rightarrow>
                            (Rejected (ThrownResponse
                               \<lparr>status = 302,
                                headers = [(''Location'', target), (''Set-Cookie'', committed)]\<rparr>),
                             w1)
                        | None \<Rightarrow> (Resolved identity, w1)))
      | _ \<Rightarrow> (Rejected (ThrownError ''Invalid email or password''), w))"

text \<open>
  The handler of \<^verbatim>\<open>.catch\<close>: a thrown response with status 302 is the success signal and
  becomes the init of the reply; anything else is answered with the generic field error
  and status 401.
\<close>

fun signin_catch :: "'v submission \<Rightarrow> thrown \<Rightarrow> action_return" where
  "signin_catch submission (ThrownResponse e) =
     (if status e = 302 then Json (submission_reply submission NoOptions) e
      else Json (submission_reply submission
                   (FieldErrors [(''email'', [''Invalid email or password''])]))
             \<lparr>status = 401, headers = []\<rparr>)"
| "signin_catch submission e =
     Json (submission_reply submission
             (FieldErrors [(''email'', [''Invalid email or password''])]))
       \<lparr>status = 401, headers = []\<rparr>"

definition signin_action ::
  "bcrypt \<Rightarrow> Authenticator \<Rightarrow> (string \<Rightarrow> bool) \<Rightarrow> world \<Rightarrow> ActionFunctionArgs
     \<Rightarrow> action_return \<times> world" where
  "signin_action B A is_email w args =
     (let submission = parseWithZod (signInSchema is_email) (formData (request args))
      in case result submission of
           Inl _ \<Rightarrow> (json (submission_reply submission NoOptions), w)
         | Inr _ \<Rightarrow>
             (case authenticate B A w (request args) (Some ''/'') of
                (Resolved u, w') \<Rightarrow> (Identity u, w')
              | (Rejected e, w') \<Rightarrow> (signin_catch submission e, w')))"

section \<open>The profile-update action\<close>

record ProfileValue =
  v_image :: "string option"
  v_name :: string
  v_pemail :: string
  v_bio :: "string option"

text \<open>
  \<^verbatim>\<open>schemaForUpdateProfile\<close>. A nullable field admits \<^verbatim>\<open>null\<close>, which a form field never
  carries, and is otherwise a string like the others.
\<close>

definition schemaForUpdateProfile ::
  "(string \<Rightarrow> bool) \<Rightarrow> (string \<Rightarrow> string option) \<Rightarrow> field_errors + ProfileValue" where
  "schemaForUpdateProfile is_email input =
     (let errs =
        field ''image'' (case input ''image'' of None \<Rightarrow> [''Required''] | Some _ \<Rightarrow> []) @
        field ''name''
          (case input ''name'' of
             None \<Rightarrow> [''Name is required'']
           | Some n \<Rightarrow>
               if length n > 255 then [''Name must be less than 255 characters''] else []) @
        field ''email''
          (case input ''email'' of
             None \<Rightarrow> [''Email is required'']
           | Some e \<Rightarrow> if is_email e then [] else [''Invalid email'']) @
        field ''bio''
          (case input ''bio'' of
             None \<Rightarrow> [''Required'']
           | Some b \<Rightarrow>
               if length b > 1000 then [''Bio must be less than 1000 characters''] else [])
      in case (errs, input ''image'', input ''name'', input ''email'', input ''bio'') of
           ([], Some i, Some n, Some e, Some b) \<Rightarrow>
             Inr \<lparr>v_image = Some i, v_name = n, v_pemail = e, v_bio = Some b\<rparr>
         | _ \<Rightarrow> Inl errs)"

record UpdateProfileInput =
  up_userId :: string
  up_image :: "string option"
  up_name :: string
  up_email :: string
  up_bio :: "string option"

text \<open>
  \<^verbatim>\<open>updateProfile(context, input)\<close> is a service whose source is missing; the action
  takes it as a parameter. It resolves to an object (the updated user data with its
  \<^verbatim>\<open>bio\<close>) or rejects, and may change the world.
\<close>

type_synonym updateProfile = "world \<Rightarrow> UpdateProfileInput \<Rightarrow> (exn + jsobj) \<times> world"

text \<open>
  \<^verbatim>\<open>{ ...user, ...newUserData }\<close> is \<^term>\<open>u ++ newUserData\<close>: the properties of the
  right object win. The action does not catch a rejection of \<^verbatim>\<open>updateProfile\<close>.
\<close>

definition profile_action ::
  "Authenticator \<Rightarrow> (string \<Rightarrow> bool) \<Rightarrow> updateProfile \<Rightarrow> world \<Rightarrow> ActionFunctionArgs
     \<Rightarrow> (exn + action_return) \<times> world" where
  "profile_action A is_email updateProfile w args =
     (let user = isAuthenticated A (request args);
          submission = parseWithZod (schemaForUpdateProfile is_email) (formData (request args))
      in case user of
           None \<Rightarrow>
             (Inr (json (submission_reply submission
                (FieldErrors [(''userId'',
                   [''You must be signed in to update your profile''])]))), w)
         | Some u \<Rightarrow>
             if u ''id'' \<noteq> Some (JStr (param_userId (params args))) then
               (Inr (json (submission_reply submission
                  (FieldErrors [(''userId'', [''You can only update your own profile''])]))), w)
             else
               (case result submission of
                  Inl _ \<Rightarrow> (Inr (Bare (submission_reply submission NoOptions)), w)
                | Inr v \<Rightarrow>
                    (case updateProfile w
                            \<lparr>up_userId = param_userId (params args),
                             up_image = v_image v,
                             up_name = v_name v,
                             up_email = v_pemail v,
                             up_bio = v_bio v\<rparr> of
                       (Inl e, w') \<Rightarrow> (Inl e, w')
                     | (Inr updated, w') \<Rightarrow>
                         (let newUserData = updated(''bio'' := None);
                              session = getSession (sessionStorage A) (cookie (request args));
                              session' = session(sessionKey A \<mapsto> u ++ newUserData);
                              committed = commitSession (sessionStorage A) session'
                          in (Inr (Json (submission_reply submission NoOptions)
                                     \<lparr>status = 200, headers = [(''Set-Cookie'', committed)]\<rparr>),
                              w')))))"

section \<open>Stated properties of the inputs\<close>

text \<open>The store answers the next \<open>n\<close> calls: none of them is scheduled to fault.\<close>

definition store_answers :: "nat \<Rightarrow> world \<Rightarrow> bool" where
  "store_answers n w = list_all Not (take n (faults w))"

text \<open>
  The password policy in the words of the specification: between 8 and 255 characters,
  at least one letter and one digit.
\<close>

definition meets_policy :: "string \<Rightarrow> bool" where
  "meets_policy p =
     (8 \<le> length p \<and> length p \<le> 255 \<and> list_ex is_letter p \<and> list_ex is_digit p)"

text \<open>
  A password-change input in the words of the specification: the current password is
  present (a blank field counts as missing), the new password meets the policy and the
  confirmation equals it.
\<close>

definition password_change_input_ok :: "form_data \<Rightarrow> bool" where
  "password_change_input_ok fd =
     (case (fd ''currentPassword'', fd ''newPassword'', fd ''confirmNewPassword'') of
        (Some c, Some p, Some q) \<Rightarrow> c \<noteq> [] \<and> meets_policy p \<and> q = p
      | _ \<Rightarrow> False)"

section \<open>A concrete system to run the model on\<close>

text \<open>
  Stand-ins for the collaborators: a hasher whose digest is the tagged plaintext, a
  session storage that knows one cookie, a test for e-mail addresses that looks for the
  at sign. They serve to evaluate the actions on concrete requests.
\<close>

definition demo_bcrypt :: bcrypt where
  "demo_bcrypt = \<lparr>compare = (\<lambda>s digest. digest = ''hashed:'' @ s),
                  hash = (\<lambda>s rounds salt. ''hashed:'' @ s)\<rparr>"

definition demo_is_email :: "string \<Rightarrow> bool" where
  "demo_is_email e = (CHR ''@'' \<in> set e)"

definition alice :: User where
  "alice = \<lparr>u_email = ''alice@example.com'', u_password = ''hashed:Passw0rd'',
            u_name = ''Alice'', u_image = None, u_role = USER\<rparr>"

definition bob :: User where
  "bob = \<lparr>u_email = ''bob@example.com'', u_password = ''hashed:abc'',
          u_name = ''Bob'', u_image = None, u_role = USER\<rparr>"

definition demo_world :: world where
  "demo_world = \<lparr>users = [(''u1'', alice), (''u2'', bob)], calls = [], faults = [],
                 salts = [''salt1'']\<rparr>"

definition demo_storage :: SessionStorage where
  "demo_storage =
     \<lparr>getSession = (\<lambda>c. if c = Some ''sid=alice'' then [''user'' \<mapsto> identity_of ''u1'' alice]
                         else Map.empty),
      commitSession = (\<lambda>s. case s ''user'' of
                              None \<Rightarrow> ''sid=''
                            | Some u \<Rightarrow> (case u ''name'' of
                                           Some (JStr n) \<Rightarrow> ''sid='' @ n
                                         | _ \<Rightarrow> ''sid=?''))\<rparr>"

definition demo_auth :: Authenticator where
  "demo_auth = \<lparr>sessionStorage = demo_storage, sessionKey = ''user''\<rparr>"

text \<open>Alice, signed in, on the page of user \<open>u2\<close>, submits a valid password change.\<close>

definition change_on_foreign_page :: ActionFunctionArgs where
  "change_on_foreign_page =
     \<lparr>request = \<lparr>cookie = Some ''sid=alice'',
                  formData = [''currentPassword'' \<mapsto> ''Passw0rd'',
                              ''newPassword'' \<mapsto> ''NewPass1'',
                              ''confirmNewPassword'' \<mapsto> ''NewPass1'']\<rparr>,
      params = \<lparr>param_userId = ''u2''\<rparr>\<rparr>"

text \<open>Alice, signed in, on her own page, with a wrong current password.\<close>

definition change_wrong_current :: ActionFunctionArgs where
  "change_wrong_current =
     \<lparr>request = \<lparr>cookie = Some ''sid=alice'',
                  formData = [''currentPassword'' \<mapsto> ''Wrong0ne'',
                              ''newPassword'' \<mapsto> ''NewPass1'',
                              ''confirmNewPassword'' \<mapsto> ''NewPass1'']\<rparr>,
      params = \<lparr>param_userId = ''u1''\<rparr>\<rparr>"

text \<open>A password change whose confirmation differs.\<close>

definition change_mismatch :: ActionFunctionArgs where
  "change_mismatch =
     \<lparr>request = \<lparr>cookie = Some ''sid=alice'',
                  formData = [''currentPassword'' \<mapsto> ''Passw0rd'',
                              ''newPassword'' \<mapsto> ''NewPass1'',
                              ''confirmNewPassword'' \<mapsto> ''NewPass2'']\<rparr>,
      params = \<lparr>param_userId = ''u1''\<rparr>\<rparr>"

text \<open>Alice, signed in, posts a profile to the page of user \<open>u2\<close>.\<close>

definition profile_on_foreign_page :: ActionFunctionArgs where
  "profile_on_foreign_page =
     \<lparr>request = \<lparr>cookie = Some ''sid=alice'',
                  formData = [''image'' \<mapsto> ''a.png'', ''name'' \<mapsto> ''Mallory'',
                              ''email'' \<mapsto> ''alice@example.com'', ''bio'' \<mapsto> ''hi'']\<rparr>,
      params = \<lparr>param_userId = ''u2''\<rparr>\<rparr>"

text \<open>Alice, signed in, renames herself on her own page.\<close>

definition profile_on_own_page :: ActionFunctionArgs where
  "profile_on_own_page =
     \<lparr>request = \<lparr>cookie = Some ''sid=alice'',
                  formData = [''image'' \<mapsto> ''a.png'', ''name'' \<mapsto> ''Alicia'',
                              ''email'' \<mapsto> ''alice@example.com'', ''bio'' \<mapsto> ''hi'']\<rparr>,
      params = \<lparr>param_userId = ''u1''\<rparr>\<rparr>"

text \<open>A stand-in for the profile service: it answers the submitted data and its bio.\<close>

definition demo_updateProfile :: updateProfile where
  "demo_updateProfile w i =
     (Inr [''id'' \<mapsto> JStr (up_userId i), ''name'' \<mapsto> JStr (up_name i),
           ''email'' \<mapsto> JStr (up_email i),
           ''bio'' \<mapsto> (case up_bio i of None \<Rightarrow> JNull | Some b \<Rightarrow> JStr b)], w)"

text \<open>Sign-in submissions: an unknown e-mail, a wrong password, Bob's short password.\<close>

definition signin_unknown :: ActionFunctionArgs where
  "signin_unknown =
     \<lparr>request = \<lparr>cookie = None,
                  formData = [''email'' \<mapsto> ''carol@example.com'',
                              ''password'' \<mapsto> ''Passw0rd'']\<rparr>,
      params = \<lparr>param_userId = ''-''\<rparr>\<rparr>"

definition signin_wrong :: ActionFunctionArgs where
  "signin_wrong =
     \<lparr>request = \<lparr>cookie = None,
                  formData = [''email'' \<mapsto> ''alice@example.com'',
                              ''password'' \<mapsto> ''Wrong0ne1'']\<rparr>,
      params = \<lparr>param_userId = ''-''\<rparr>\<rparr>"

definition signin_short :: ActionFunctionArgs where
  "signin_short =
     \<lparr>request = \<lparr>cookie = None,
                  formData = [''email'' \<mapsto> ''bob@example.com'', ''password'' \<mapsto> ''abc'']\<rparr>,
      params = \<lparr>param_userId = ''-''\<rparr>\<rparr>"

section \<open>The store and the hasher: basic facts\<close>

lemma store_answers_next: "store_answers (Suc n) w \<Longrightarrow> \<not> next_fault w"
  by (cases "faults w") (simp_all add: store_answers_def next_fault_def)

lemma store_answers_issue: "store_answers (Suc n) w \<Longrightarrow> store_answers n (issue c w)"
  by (cases "faults w") (simp_all add: store_answers_def issue_def)

lemma issue_fields [simp]:
  "users (issue c w) = users w" "calls (issue c w) = calls w @ [c]"
  "salts (issue c w) = salts w" "faults (issue c w) = tl (faults w)"
  by (simp_all add: issue_def)

lemma gen_salt_fields [simp]:
  "users (snd (gen_salt w)) = users w" "calls (snd (gen_salt w)) = calls w"
  "faults (snd (gen_salt w)) = faults w"
  by (simp_all add: gen_salt_def split: list.splits)

lemma findUnique_password_answer:
  "\<not> next_fault w \<Longrightarrow>
   findUnique_password w k =
     (Inr (map_option u_password (map_of (users w) k)), issue (FindUniqueById k) w)"
  by (simp add: findUnique_password_def Let_def)

lemma update_password_answer:
  "\<not> next_fault w \<Longrightarrow> map_of (users w) k = Some r \<Longrightarrow>
   update_password w k h =
     (Inr (), (issue (UpdatePasswordById k h) w)
                \<lparr>users := AList.update k (r\<lparr>u_password := h\<rparr>) (users w)\<rparr>)"
  by (simp add: update_password_def Let_def)

lemma demo_world_answers: "store_answers n demo_world"
  by (simp add: store_answers_def demo_world_def)

section \<open>updatePassword: the error results\<close>

text \<open>
  Claim C3. Whenever the store answers the lookup: if no row has the given
  \<^verbatim>\<open>userId\<close>, \<^verbatim>\<open>updatePassword\<close> resolves to the error ``User not found''; if the row
  exists and the current password does not verify against its stored hash, it resolves to
  ``Current password is incorrect''. In both cases the lookup is the only store call (no
  update is issued) and the user table, hence the stored hash, is unchanged.
\<close>

theorem updatePassword_error_results:
  assumes up: "store_answers 1 w"
  shows "(map_of (users w) (userId rq) = None \<longrightarrow>
            (\<exists>w'. updatePassword B w rq = (Inr (Error ''User not found''), w') \<and>
                  users w' = users w \<and>
                  calls w' = calls w @ [FindUniqueById (userId rq)])) \<and>
         (\<forall>row. map_of (users w) (userId rq) = Some row \<and>
                 \<not> compare B (currentPassword rq) (u_password row) \<longrightarrow>
            (\<exists>w'. updatePassword B w rq = (Inr (Error ''Current password is incorrect''), w') \<and>
                  users w' = users w \<and>
                  calls w' = calls w @ [FindUniqueById (userId rq)]))"
proof -
  from up have nf: "\<not> next_fault w"
    using store_answers_next [of 0 w] by simp
  show ?thesis
    by (simp add: updatePassword_def findUnique_password_answer [OF nf])
qed

theorem updatePassword_error_results_witness:
  "store_answers 1 demo_world \<and>
   map_of (users demo_world) ''u9'' = None \<and>
   fst (updatePassword demo_bcrypt demo_world
          \<lparr>userId = ''u9'', currentPassword = ''Passw0rd'', newPassword = ''NewPass1''\<rparr>) =
     Inr (Error ''User not found'') \<and>
   map_of (users demo_world) ''u1'' = Some alice \<and>
   \<not> compare demo_bcrypt ''Wrong0ne'' (u_password alice) \<and>
   fst (updatePassword demo_bcrypt demo_world
          \<lparr>userId = ''u1'', currentPassword = ''Wrong0ne'', newPassword = ''NewPass1''\<rparr>) =
     Inr (Error ''Current password is incorrect'') \<and>
   users (snd (updatePassword demo_bcrypt demo_world
          \<lparr>userId = ''u1'', currentPassword = ''Wrong0ne'', newPassword = ''NewPass1''\<rparr>)) =
     users demo_world"
proof -
  let ?r9 = "\<lparr>userId = ''u9'', currentPassword = ''Passw0rd'', newPassword = ''NewPass1''\<rparr>"
  let ?r1 = "\<lparr>userId = ''u1'', currentPassword = ''Wrong0ne'', newPassword = ''NewPass1''\<rparr>"
  have up: "store_answers 1 demo_world"
    by (rule demo_world_answers)
  have none: "map_of (users demo_world) (userId ?r9) = None"
    by (simp add: demo_world_def)
  have row: "map_of (users demo_world) (userId ?r1) = Some alice"
    by (simp add: demo_world_def)
  have wrong: "\<not> compare demo_bcrypt (currentPassword ?r1) (u_password alice)"
    by (simp add: demo_bcrypt_def alice_def)
  from updatePassword_error_results [OF up, of ?r9 demo_bcrypt] none
  have a: "fst (updatePassword demo_bcrypt demo_world ?r9) = Inr (Error ''User not found'')"
    by auto
  from updatePassword_error_results [OF up, of ?r1 demo_bcrypt] row wrong
  have b: "fst (updatePassword demo_bcrypt demo_world ?r1) =
             Inr (Error ''Current password is incorrect'') \<and>
           users (snd (updatePassword demo_bcrypt demo_world ?r1)) = users demo_world"
    by auto
  from up none row wrong a b show ?thesis
    by simp
qed

section \<open>updatePassword: the successful rotation\<close>

text \<open>
  Claim C5. Whenever the store answers both calls, the target row exists and the current
  password verifies against its stored hash, \<^verbatim>\<open>updatePassword\<close> hashes the new
  password at work factor 12 (with the salt the library draws), issues after the lookup
  exactly one update, keyed by \<^verbatim>\<open>userId\<close>, that replaces the password field of that
  row and leaves every other row and field as it was, and resolves to \<^verbatim>\<open>null\<close>.
\<close>

theorem updatePassword_success:
  assumes up: "store_answers 2 w"
    and row: "map_of (users w) (userId rq) = Some row"
    and ok: "compare B (currentPassword rq) (u_password row)"
  shows "\<exists>w'. updatePassword B w rq = (Inr Null, w') \<and>
           calls w' = calls w @
             [FindUniqueById (userId rq),
              UpdatePasswordById (userId rq) (hash B (newPassword rq) 12 (fst (gen_salt w)))] \<and>
           map_of (users w') =
             (map_of (users w))
               (userId rq \<mapsto> row\<lparr>u_password := hash B (newPassword rq) 12 (fst (gen_salt w))\<rparr>)"
proof -
  let ?w1 = "issue (FindUniqueById (userId rq)) w"
  let ?h = "hash B (newPassword rq) 12 (fst (gen_salt w))"
  obtain s w2 where gs: "gen_salt ?w1 = (s, w2)"
    by (cases "gen_salt ?w1")
  from up have nf: "\<not> next_fault w"
    using store_answers_next [of 1 w] by (simp add: numeral_2_eq_2)
  from up have "store_answers 1 ?w1"
    using store_answers_issue [of 1 w] by (simp add: numeral_2_eq_2)
  then have nf1: "\<not> next_fault ?w1"
    using store_answers_next [of 0 ?w1] by simp
  have w2: "users w2 = users w" "calls w2 = calls w @ [FindUniqueById (userId rq)]"
    "faults w2 = faults ?w1"
    using gen_salt_fields [of ?w1] by (simp_all add: gs)
  have nf2: "\<not> next_fault w2"
    using nf1 w2(3) by (simp add: next_fault_def)
  have "fst (gen_salt ?w1) = fst (gen_salt w)"
    by (simp add: gen_salt_def split: list.splits)
  then have s: "s = fst (gen_salt w)"
    by (simp add: gs)
  have row2: "map_of (users w2) (userId rq) = Some row"
    using row w2 by simp
  have "updatePassword B w rq =
          (Inr Null, (issue (UpdatePasswordById (userId rq) ?h) w2)
             \<lparr>users := AList.update (userId rq) (row\<lparr>u_password := ?h\<rparr>) (users w2)\<rparr>)"
    using row ok
    by (simp add: updatePassword_def findUnique_password_answer [OF nf] gs s [symmetric]
        update_password_answer [OF nf2 row2])
  then show ?thesis
    by (simp add: update_conv' w2)
qed

theorem updatePassword_success_witness:
  "store_answers 2 demo_world \<and>
   map_of (users demo_world) ''u1'' = Some alice \<and>
   compare demo_bcrypt ''Passw0rd'' (u_password alice) \<and>
   fst (updatePassword demo_bcrypt demo_world
          \<lparr>userId = ''u1'', currentPassword = ''Passw0rd'', newPassword = ''NewPass1''\<rparr>) =
     Inr Null \<and>
   calls (snd (updatePassword demo_bcrypt demo_world
          \<lparr>userId = ''u1'', currentPassword = ''Passw0rd'', newPassword = ''NewPass1''\<rparr>)) =
     [FindUniqueById ''u1'', UpdatePasswordById ''u1'' ''hashed:NewPass1''] \<and>
   map_option u_password
     (map_of (users (snd (updatePassword demo_bcrypt demo_world
          \<lparr>userId = ''u1'', currentPassword = ''Passw0rd'', newPassword = ''NewPass1''\<rparr>))) ''u1'') =
     Some ''hashed:NewPass1'' \<and>
   map_of (users (snd (updatePassword demo_bcrypt demo_world
          \<lparr>userId = ''u1'', currentPassword = ''Passw0rd'', newPassword = ''NewPass1''\<rparr>))) ''u2'' =
     Some bob"
proof -
  let ?r = "\<lparr>userId = ''u1'', currentPassword = ''Passw0rd'', newPassword = ''NewPass1''\<rparr>"
  have up: "store_answers 2 demo_world"
    by (rule demo_world_answers)
  have row: "map_of (users demo_world) (userId ?r) = Some alice"
    by (simp add: demo_world_def)
  have ok: "compare demo_bcrypt (currentPassword ?r) (u_password alice)"
    by (simp add: demo_bcrypt_def alice_def)
  from updatePassword_success [OF up row ok]
  obtain w' where w': "updatePassword demo_bcrypt demo_world ?r = (Inr Null, w')"
    "calls w' = calls demo_world @
       [FindUniqueById ''u1'',
        UpdatePasswordById ''u1'' (hash demo_bcrypt ''NewPass1'' 12 (fst (gen_salt demo_world)))]"
    "map_of (users w') =
       (map_of (users demo_world))
         (''u1'' \<mapsto> alice\<lparr>u_password := hash demo_bcrypt ''NewPass1'' 12 (fst (gen_salt demo_world))\<rparr>)"
    by auto
  have h: "hash demo_bcrypt ''NewPass1'' 12 salt = ''hashed:NewPass1''" for salt
    by (simp add: demo_bcrypt_def)
  from up row ok w' show ?thesis
    by (simp add: h demo_world_def)
qed

section \<open>Validation: what the schemas accept\<close>

lemma password_issues_Nil: "password_issues p = [] \<longleftrightarrow> meets_policy p"
  by (auto simp add: password_issues_def meets_policy_def letter_and_number_def)

lemma coerceString_Some: "coerceString v = Some s \<longleftrightarrow> v = Some s \<and> s \<noteq> []"
  by (auto simp add: coerceString_def split: option.splits list.splits)

lemma meets_policy_nonempty: "meets_policy p \<Longrightarrow> p \<noteq> []"
  by (auto simp add: meets_policy_def)

lemma passwordChangeSchema_accepts:
  assumes "password_change_input_ok fd"
  shows "\<exists>c p. fd ''currentPassword'' = Some c \<and> fd ''newPassword'' = Some p \<and>
           passwordChangeSchema (\<lambda>name. coerceString (fd name)) =
             Inr \<lparr>v_currentPassword = c, v_newPassword = p, v_confirmNewPassword = p\<rparr>"
proof -
  from assms obtain c p where f: "fd ''currentPassword'' = Some c" "fd ''newPassword'' = Some p"
    "fd ''confirmNewPassword'' = Some p" and c: "c \<noteq> []" and p: "meets_policy p"
    by (auto simp add: password_change_input_ok_def split: option.splits)
  from p have pn: "p \<noteq> []" by (rule meets_policy_nonempty)
  have co: "coerceString (Some c) = Some c" "coerceString (Some p) = Some p"
    using c pn by (simp_all add: coerceString_Some)
  have "passwordChangeSchema (\<lambda>name. coerceString (fd name)) =
          Inr \<lparr>v_currentPassword = c, v_newPassword = p, v_confirmNewPassword = p\<rparr>"
    using p by (simp add: passwordChangeSchema_def f co field_def password_issues_Nil)
  with f show ?thesis by blast
qed

lemma passwordChangeSchema_rejects:
  assumes "\<not> password_change_input_ok fd"
  shows "\<exists>errs. passwordChangeSchema (\<lambda>name. coerceString (fd name)) = Inl errs \<and> errs \<noteq> [] \<and>
           (\<forall>(name, msgs) \<in> set errs.
              name \<in> {''currentPassword'', ''newPassword'', ''confirmNewPassword''} \<and> msgs \<noteq> [])"
proof (cases "coerceString (fd ''currentPassword'')")
  case None
  then show ?thesis
    by (auto simp add: passwordChangeSchema_def field_def split: option.splits)
next
  case c: (Some c)
  show ?thesis
  proof (cases "coerceString (fd ''newPassword'')")
    case None
    then show ?thesis using c
      by (auto simp add: passwordChangeSchema_def field_def split: option.splits)
  next
    case p: (Some p)
    show ?thesis
    proof (cases "coerceString (fd ''confirmNewPassword'')")
      case None
      then show ?thesis using c p
        by (auto simp add: passwordChangeSchema_def field_def split: option.splits)
    next
      case q: (Some q)
      from c p q have raw: "fd ''currentPassword'' = Some c" "c \<noteq> []"
        "fd ''newPassword'' = Some p" "fd ''confirmNewPassword'' = Some q"
        by (simp_all add: coerceString_Some)
      with assms have bad: "\<not> meets_policy p \<or> q \<noteq> p"
        by (auto simp add: password_change_input_ok_def)
      then show ?thesis using c p q
        by (auto simp add: passwordChangeSchema_def field_def password_issues_Nil Let_def)
    qed
  qed
qed

lemma signInSchema_accepts:
  assumes "signInSchema is_email (\<lambda>name. coerceString (fd name)) = Inr s"
  shows "fd ''email'' = Some (v_email s) \<and> fd ''password'' = Some (v_password s) \<and>
         meets_policy (v_password s)"
proof -
  from assms obtain e p where c: "coerceString (fd ''email'') = Some e"
    "coerceString (fd ''password'') = Some p"
    by (auto simp add: signInSchema_def Let_def split: option.splits list.splits)
  with assms have "s = \<lparr>v_email = e, v_password = p\<rparr>" "password_issues p = []"
    by (auto simp add: signInSchema_def Let_def field_def split: list.splits if_splits)
  with c show ?thesis
    by (simp add: coerceString_Some password_issues_Nil)
qed

lemma signInSchema_rejects:
  assumes "fd ''password'' = Some p" and "\<not> meets_policy p"
  shows "\<exists>errs msgs. signInSchema is_email (\<lambda>name. coerceString (fd name)) = Inl errs \<and>
           (''password'', msgs) \<in> set errs \<and> msgs \<noteq> []"
proof (cases "p = []")
  case True
  with assms(1) have "coerceString (fd ''password'') = None"
    by (simp add: coerceString_def)
  then show ?thesis
    by (auto simp add: signInSchema_def Let_def field_def split: list.splits option.splits)
next
  case False
  with assms(1) have "coerceString (fd ''password'') = Some p"
    by (simp add: coerceString_Some)
  moreover from assms(2) have "password_issues p \<noteq> []"
    by (simp add: password_issues_Nil)
  ultimately show ?thesis
    by (auto simp add: signInSchema_def Let_def field_def split: list.splits option.splits)
qed

section \<open>Facts about the concrete system\<close>

lemma demo_session:
  "isAuthenticated demo_auth \<lparr>cookie = Some ''sid=alice'', formData = fd\<rparr> =
     Some (identity_of ''u1'' alice)"
  by (simp add: isAuthenticated_def demo_auth_def demo_storage_def)

lemma demo_identity_id: "identity_of ''u1'' alice ''id'' = Some (JStr ''u1'')"
  by (simp add: identity_of_def)

lemma meets_policy_NewPass1: "meets_policy ''NewPass1''"
  by (simp add: meets_policy_def is_letter_def is_digit_def)

lemma change_wrong_current_valid:
  "passwordChangeSchema (\<lambda>name. coerceString (formData (request change_wrong_current) name)) =
     Inr \<lparr>v_currentPassword = ''Wrong0ne'', v_newPassword = ''NewPass1'',
          v_confirmNewPassword = ''NewPass1''\<rparr>"
  by (simp add: change_wrong_current_def passwordChangeSchema_def coerceString_def field_def
      password_issues_Nil meets_policy_NewPass1)

lemma signin_unknown_valid:
  "result (parseWithZod (signInSchema demo_is_email) (formData (request signin_unknown))) =
     Inr \<lparr>v_email = ''carol@example.com'', v_password = ''Passw0rd''\<rparr>"
  by (simp add: signin_unknown_def parseWithZod_def signInSchema_def coerceString_def field_def
      password_issues_def letter_and_number_def is_letter_def is_digit_def demo_is_email_def)

lemma signin_wrong_valid:
  "result (parseWithZod (signInSchema demo_is_email) (formData (request signin_wrong))) =
     Inr \<lparr>v_email = ''alice@example.com'', v_password = ''Wrong0ne1''\<rparr>"
  by (simp add: signin_wrong_def parseWithZod_def signInSchema_def coerceString_def field_def
      password_issues_def letter_and_number_def is_letter_def is_digit_def demo_is_email_def)

lemma profile_on_own_page_valid:
  "result (parseWithZod (schemaForUpdateProfile demo_is_email)
             (formData (request profile_on_own_page))) =
     Inr \<lparr>v_image = Some ''a.png'', v_name = ''Alicia'', v_pemail = ''alice@example.com'',
          v_bio = Some ''hi''\<rparr>"
  by (simp add: profile_on_own_page_def parseWithZod_def schemaForUpdateProfile_def
      coerceString_def field_def demo_is_email_def)

section \<open>Password change: validation comes first\<close>

lemma updatePassword_leaves_trace: "calls (snd (updatePassword B w rq)) \<noteq> calls w"
  by (auto simp add: updatePassword_def findUnique_password_def update_password_def Let_def
      gen_salt_def split: option.splits list.splits)

text \<open>
  Claim C4. A password-change request whose input fails validation (the current
  password is missing, the new password is shorter than 8 or longer than 255 characters
  or lacks a letter or a digit, or the confirmation differs from the new password) is
  answered with field-level validation errors, each on one of the three form fields, and
  the world is returned as it was: no store call is logged, whereas every invocation of
  \<^verbatim>\<open>updatePassword\<close> logs one. An input that satisfies all these checks passes
  validation.
\<close>

theorem password_change_validation:
  "(\<not> password_change_input_ok (formData (request args)) \<longrightarrow>
      (\<exists>errs. errs \<noteq> [] \<and>
         (\<forall>(name, msgs) \<in> set errs.
            name \<in> {''currentPassword'', ''newPassword'', ''confirmNewPassword''} \<and> msgs \<noteq> []) \<and>
         password_change_action B A w args =
           (Bare (Reply (formData (request args)) errs NoOptions), w))) \<and>
   (password_change_input_ok (formData (request args)) \<longrightarrow>
      (\<exists>v. result (parseWithZod passwordChangeSchema (formData (request args))) = Inr v)) \<and>
   (\<forall>rq. calls (snd (updatePassword B w rq)) \<noteq> calls w)"
proof (intro conjI impI allI)
  assume "\<not> password_change_input_ok (formData (request args))"
  from passwordChangeSchema_rejects [OF this]
  obtain errs where e: "passwordChangeSchema (\<lambda>name. coerceString (formData (request args) name)) = Inl errs"
    "errs \<noteq> []"
    "\<forall>(name, msgs) \<in> set errs.
        name \<in> {''currentPassword'', ''newPassword'', ''confirmNewPassword''} \<and> msgs \<noteq> []"
    by blast
  have "password_change_action B A w args =
          (Bare (Reply (formData (request args)) errs NoOptions), w)"
    by (simp add: password_change_action_def parseWithZod_def e(1) submission_reply_def)
  with e(2,3) show "\<exists>errs. errs \<noteq> [] \<and>
         (\<forall>(name, msgs) \<in> set errs.
            name \<in> {''currentPassword'', ''newPassword'', ''confirmNewPassword''} \<and> msgs \<noteq> []) \<and>
         password_change_action B A w args =
           (Bare (Reply (formData (request args)) errs NoOptions), w)"
    by blast
next
  assume "password_change_input_ok (formData (request args))"
  from passwordChangeSchema_accepts [OF this]
  show "\<exists>v. result (parseWithZod passwordChangeSchema (formData (request args))) = Inr v"
    by (auto simp add: parseWithZod_def)
next
  fix rq show "calls (snd (updatePassword B w rq)) \<noteq> calls w"
    by (rule updatePassword_leaves_trace)
qed

theorem password_change_validation_witness:
  "\<not> password_change_input_ok (formData (request change_mismatch)) \<and>
   snd (password_change_action demo_bcrypt demo_auth demo_world change_mismatch) = demo_world \<and>
   password_change_input_ok (formData (request change_wrong_current)) \<and>
   (\<exists>v. result (parseWithZod passwordChangeSchema (formData (request change_wrong_current))) =
      Inr v)"
proof -
  have bad: "\<not> password_change_input_ok (formData (request change_mismatch))"
    by (simp add: password_change_input_ok_def change_mismatch_def)
  have good: "password_change_input_ok (formData (request change_wrong_current))"
    by (simp add: password_change_input_ok_def change_wrong_current_def meets_policy_NewPass1)
  from password_change_validation [of change_mismatch demo_bcrypt demo_auth demo_world] bad
  obtain errs where
    "password_change_action demo_bcrypt demo_auth demo_world change_mismatch =
       (Bare (Reply (formData (request change_mismatch)) errs NoOptions), demo_world)"
    by blast
  then have a: "snd (password_change_action demo_bcrypt demo_auth demo_world change_mismatch) =
             demo_world"
    by simp
  from password_change_validation [of change_wrong_current demo_bcrypt demo_auth demo_world] good
  have b: "\<exists>v. result (parseWithZod passwordChangeSchema
                          (formData (request change_wrong_current))) = Inr v"
    by blast
  from bad good a b show ?thesis by simp
qed

section \<open>Password change: the reply follows resolve or reject\<close>

lemma password_change_action_authenticated:
  assumes auth: "isAuthenticated A (request args) = Some u"
    and uid: "u ''id'' = Some (JStr uid)"
    and valid: "passwordChangeSchema (\<lambda>name. coerceString (formData (request args) name)) = Inr v"
  shows "password_change_action B A w args =
     (case updatePassword B w
             \<lparr>userId = uid, currentPassword = v_currentPassword v,
              newPassword = v_newPassword v\<rparr> of
        (Inr r, w') \<Rightarrow> (json (Reply (formData (request args)) [] ResetForm), w')
      | (Inl e, w') \<Rightarrow>
          (json (Reply (formData (request args)) []
             (FieldErrors [(''currentPassword'', [''Current password is incorrect''])])), w'))"
  by (simp add: password_change_action_def parseWithZod_def auth uid valid submission_reply_def
      split: prod.splits sum.splits)

lemma password_change_action_world:
  assumes valid: "result (parseWithZod passwordChangeSchema (formData (request args))) = Inr v"
    and auth: "isAuthenticated A (request args) = Some u"
    and uid: "u ''id'' = Some (JStr uid)"
  shows "snd (password_change_action B A w args) =
         snd (updatePassword B w
                \<lparr>userId = uid, currentPassword = v_currentPassword v,
                 newPassword = v_newPassword v\<rparr>)"
proof -
  from valid
  have "passwordChangeSchema (\<lambda>name. coerceString (formData (request args) name)) = Inr v"
    by (simp add: parseWithZod_def)
  from password_change_action_authenticated [OF auth uid this]
  show ?thesis
    by (simp split: prod.splits sum.splits)
qed

text \<open>
  Claim C2. For an authenticated request whose input passes validation, the action
  answers the success reply (\<^verbatim>\<open>resetForm: true\<close>) whenever \<^verbatim>\<open>updatePassword\<close>
  resolves, whatever it resolves to, an error value such as ``User not found'' or
  ``Current password is incorrect'' included; the field error ``Current password is
  incorrect'' of the action is answered exactly when \<^verbatim>\<open>updatePassword\<close> rejects.
\<close>

theorem password_change_success_on_resolve:
  assumes auth: "isAuthenticated A (request args) = Some u"
    and uid: "u ''id'' = Some (JStr uid)"
    and valid: "passwordChangeSchema (\<lambda>name. coerceString (formData (request args) name)) = Inr v"
  shows "(\<forall>r w'. updatePassword B w
                    \<lparr>userId = uid, currentPassword = v_currentPassword v,
                     newPassword = v_newPassword v\<rparr> = (Inr r, w') \<longrightarrow>
            password_change_action B A w args =
              (json (Reply (formData (request args)) [] ResetForm), w')) \<and>
         ((\<exists>w'. password_change_action B A w args =
              (json (Reply (formData (request args)) []
                 (FieldErrors [(''currentPassword'', [''Current password is incorrect''])])), w'))
          \<longleftrightarrow>
          (\<exists>e w'. updatePassword B w
                    \<lparr>userId = uid, currentPassword = v_currentPassword v,
                     newPassword = v_newPassword v\<rparr> = (Inl e, w')))"
  by (auto simp add: password_change_action_authenticated [OF auth uid valid] json_def
      split: prod.splits sum.splits)

theorem password_change_success_on_resolve_witness:
  "isAuthenticated demo_auth (request change_wrong_current) = Some (identity_of ''u1'' alice) \<and>
   updatePassword demo_bcrypt demo_world
     \<lparr>userId = ''u1'', currentPassword = ''Wrong0ne'', newPassword = ''NewPass1''\<rparr> =
     (Inr (Error ''Current password is incorrect''), issue (FindUniqueById ''u1'') demo_world) \<and>
   password_change_action demo_bcrypt demo_auth demo_world change_wrong_current =
     (json (Reply (formData (request change_wrong_current)) [] ResetForm),
      issue (FindUniqueById ''u1'') demo_world)"
proof -
  have auth: "isAuthenticated demo_auth (request change_wrong_current) =
                Some (identity_of ''u1'' alice)"
    by (simp add: change_wrong_current_def demo_session)
  have up: "updatePassword demo_bcrypt demo_world
              \<lparr>userId = ''u1'', currentPassword = ''Wrong0ne'', newPassword = ''NewPass1''\<rparr> =
            (Inr (Error ''Current password is incorrect''),
             issue (FindUniqueById ''u1'') demo_world)"
    by (simp add: updatePassword_def findUnique_password_def next_fault_def demo_world_def
        demo_bcrypt_def alice_def Let_def)
  from password_change_success_on_resolve
         [OF auth demo_identity_id change_wrong_current_valid, of demo_bcrypt demo_world] up
  have "password_change_action demo_bcrypt demo_auth demo_world change_wrong_current =
          (json (Reply (formData (request change_wrong_current)) [] ResetForm),
           issue (FindUniqueById ''u1'') demo_world)"
    by simp
  with auth up show ?thesis by simp
qed

section \<open>Password change: only the caller's own record\<close>

lemma updatePassword_footprint:
  "\<exists>cs. calls (snd (updatePassword B w rq)) = calls w @ cs \<and>
        (\<forall>c \<in> set cs. call_target c = userId rq) \<and>
        (\<forall>k. k \<noteq> userId rq \<longrightarrow>
           map_of (users (snd (updatePassword B w rq))) k = map_of (users w) k)"
  by (auto simp add: updatePassword_def findUnique_password_def update_password_def Let_def
      gen_salt_def update_conv' split: option.splits list.splits)

text \<open>
  Claim C9. The password-change action does not depend on the URL parameter
  \<^verbatim>\<open>userId\<close>. Every store call it issues targets the id of the session identity, it
  hands that id to \<^verbatim>\<open>updatePassword\<close> as \<^verbatim>\<open>userId\<close>, and the row of any other
  key is left as it was, for every request.
\<close>

theorem password_change_targets_caller:
  "password_change_action B A w (args\<lparr>params := p\<rparr>) = password_change_action B A w args \<and>
   (\<exists>cs. calls (snd (password_change_action B A w args)) = calls w @ cs \<and>
      (\<forall>c \<in> set cs. \<exists>u. isAuthenticated A (request args) = Some u \<and>
                         u ''id'' = Some (JStr (call_target c)))) \<and>
   (\<forall>k. (\<forall>u. isAuthenticated A (request args) = Some u \<longrightarrow> u ''id'' \<noteq> Some (JStr k)) \<longrightarrow>
        map_of (users (snd (password_change_action B A w args))) k = map_of (users w) k) \<and>
   (\<forall>u uid v. isAuthenticated A (request args) = Some u \<and> u ''id'' = Some (JStr uid) \<and>
        result (parseWithZod passwordChangeSchema (formData (request args))) = Inr v \<longrightarrow>
        snd (password_change_action B A w args) =
        snd (updatePassword B w
               \<lparr>userId = uid, currentPassword = v_currentPassword v,
                newPassword = v_newPassword v\<rparr>))"
proof (intro conjI)
  show "password_change_action B A w (args\<lparr>params := p\<rparr>) = password_change_action B A w args"
    by (simp add: password_change_action_def)
next
  show "\<exists>cs. calls (snd (password_change_action B A w args)) = calls w @ cs \<and>
      (\<forall>c \<in> set cs. \<exists>u. isAuthenticated A (request args) = Some u \<and>
                         u ''id'' = Some (JStr (call_target c)))"
  proof (cases "result (parseWithZod passwordChangeSchema (formData (request args)))")
    case (Inl e)
    then show ?thesis by (simp add: password_change_action_def)
  next
    case (Inr v)
    show ?thesis
    proof (cases "isAuthenticated A (request args)")
      case None
      with Inr show ?thesis by (simp add: password_change_action_def)
    next
      case (Some u)
      show ?thesis
      proof (cases "\<exists>uid. u ''id'' = Some (JStr uid)")
        case False
        with Inr Some show ?thesis
          by (auto simp add: password_change_action_def split: option.splits jsval.splits)
      next
        case True
        then obtain uid where uid: "u ''id'' = Some (JStr uid)" by blast
        let ?rq = "\<lparr>userId = uid, currentPassword = v_currentPassword v,
                    newPassword = v_newPassword v\<rparr>"
        from updatePassword_footprint [of B w ?rq]
        obtain cs where cs: "calls (snd (updatePassword B w ?rq)) = calls w @ cs"
          "\<forall>c \<in> set cs. call_target c = uid"
          by auto
        have "snd (password_change_action B A w args) = snd (updatePassword B w ?rq)"
          by (rule password_change_action_world [OF Inr Some uid])
        with cs Some uid show ?thesis by auto
      qed
    qed
  qed
next
  show "\<forall>k. (\<forall>u. isAuthenticated A (request args) = Some u \<longrightarrow> u ''id'' \<noteq> Some (JStr k)) \<longrightarrow>
        map_of (users (snd (password_change_action B A w args))) k = map_of (users w) k"
  proof (intro allI impI)
    fix k
    assume other: "\<forall>u. isAuthenticated A (request args) = Some u \<longrightarrow> u ''id'' \<noteq> Some (JStr k)"
    show "map_of (users (snd (password_change_action B A w args))) k = map_of (users w) k"
    proof (cases "result (parseWithZod passwordChangeSchema (formData (request args)))")
      case (Inl e)
      then show ?thesis by (simp add: password_change_action_def)
    next
      case (Inr v)
      show ?thesis
      proof (cases "isAuthenticated A (request args)")
        case None
        with Inr show ?thesis by (simp add: password_change_action_def)
      next
        case (Some u)
        show ?thesis
        proof (cases "\<exists>uid. u ''id'' = Some (JStr uid)")
          case False
          with Inr Some show ?thesis
            by (auto simp add: password_change_action_def split: option.splits jsval.splits)
        next
          case True
          then obtain uid where uid: "u ''id'' = Some (JStr uid)" by blast
          let ?rq = "\<lparr>userId = uid, currentPassword = v_currentPassword v,
                      newPassword = v_newPassword v\<rparr>"
          from other Some uid have "k \<noteq> userId ?rq" by auto
          with updatePassword_footprint [of B w ?rq]
          have "map_of (users (snd (updatePassword B w ?rq))) k = map_of (users w) k"
            by blast
          moreover have "snd (password_change_action B A w args) = snd (updatePassword B w ?rq)"
            by (rule password_change_action_world [OF Inr Some uid])
          ultimately show ?thesis by simp
        qed
      qed
    qed
  qed
next
  show "\<forall>u uid v. isAuthenticated A (request args) = Some u \<and> u ''id'' = Some (JStr uid) \<and>
        result (parseWithZod passwordChangeSchema (formData (request args))) = Inr v \<longrightarrow>
        snd (password_change_action B A w args) =
        snd (updatePassword B w
               \<lparr>userId = uid, currentPassword = v_currentPassword v,
                newPassword = v_newPassword v\<rparr>)"
    by (intro allI impI) (auto intro: password_change_action_world)
qed

theorem password_change_targets_caller_witness:
  "password_change_action demo_bcrypt demo_auth demo_world
     (change_on_foreign_page\<lparr>params := \<lparr>param_userId = ''u1''\<rparr>\<rparr>) =
   password_change_action demo_bcrypt demo_auth demo_world change_on_foreign_page \<and>
   map_of (users (snd (password_change_action demo_bcrypt demo_auth demo_world
                         change_on_foreign_page))) ''u2'' = Some bob"
proof -
  have other: "\<forall>u. isAuthenticated demo_auth (request change_on_foreign_page) = Some u \<longrightarrow>
                 u ''id'' \<noteq> Some (JStr ''u2'')"
    by (simp add: change_on_foreign_page_def demo_session demo_identity_id)
  have bob: "map_of (users demo_world) ''u2'' = Some bob"
    by (simp add: demo_world_def)
  from password_change_targets_caller
         [where B = demo_bcrypt and A = demo_auth and w = demo_world
            and args = change_on_foreign_page and p = "\<lparr>param_userId = ''u1''\<rparr>"]
       other bob
  show ?thesis by simp
qed

section \<open>Acting on the page of another user\<close>

text \<open>
  Claim C1, as stated, fails for the password-change action: Alice, signed in as
  \<open>u1\<close>, posts a valid password change to the page of \<open>u2\<close>; the action answers
  the success reply and rewrites her own stored hash.
\<close>

theorem password_change_foreign_page_counterexample:
  "isAuthenticated demo_auth (request change_on_foreign_page) = Some (identity_of ''u1'' alice) \<and>
   identity_of ''u1'' alice ''id'' = Some (JStr ''u1'') \<and>
   param_userId (params change_on_foreign_page) = ''u2'' \<and>
   ''u2'' \<noteq> ''u1'' \<and>
   fst (password_change_action demo_bcrypt demo_auth demo_world change_on_foreign_page) =
     Json (Reply (formData (request change_on_foreign_page)) [] ResetForm)
       \<lparr>status = 200, headers = []\<rparr> \<and>
   calls (snd (password_change_action demo_bcrypt demo_auth demo_world change_on_foreign_page)) =
     [FindUniqueById ''u1'', UpdatePasswordById ''u1'' ''hashed:NewPass1''] \<and>
   map_option u_password
     (map_of (users demo_world) ''u1'') = Some ''hashed:Passw0rd'' \<and>
   map_option u_password
     (map_of (users (snd (password_change_action demo_bcrypt demo_auth demo_world
                            change_on_foreign_page))) ''u1'') = Some ''hashed:NewPass1''"
  by (simp add: password_change_action_def isAuthenticated_def parseWithZod_def
      passwordChangeSchema_def coerceString_def field_def password_issues_def
      letter_and_number_def is_letter_def is_digit_def submission_reply_def json_def
      updatePassword_def findUnique_password_def update_password_def issue_def next_fault_def
      gen_salt_def identity_of_def demo_bcrypt_def demo_auth_def demo_storage_def
      demo_world_def alice_def bob_def change_on_foreign_page_def Let_def)

text \<open>
  Claim C1, amended. For every profile-update request that carries a valid session for
  a user whose id differs from the URL parameter \<^verbatim>\<open>userId\<close>, the action answers the
  field error ``You can only update your own profile'' on the \<^verbatim>\<open>userId\<close> field and
  returns the world as it was, whatever the payload and whatever the profile service
  would have done.
\<close>

theorem profile_update_rejects_foreign_page:
  assumes auth: "isAuthenticated A (request args) = Some u"
    and other: "u ''id'' \<noteq> Some (JStr (param_userId (params args)))"
  shows "profile_action A is_email updateProfile w args =
           (Inr (Json (submission_reply
                         (parseWithZod (schemaForUpdateProfile is_email) (formData (request args)))
                         (FieldErrors [(''userId'', [''You can only update your own profile''])]))
                   \<lparr>status = 200, headers = []\<rparr>), w)"
  using other by (simp add: profile_action_def auth json_def Let_def)

theorem profile_update_rejects_foreign_page_witness:
  "isAuthenticated demo_auth (request profile_on_foreign_page) = Some (identity_of ''u1'' alice) \<and>
   identity_of ''u1'' alice ''id'' \<noteq> Some (JStr (param_userId (params profile_on_foreign_page))) \<and>
   profile_action demo_auth demo_is_email demo_updateProfile demo_world profile_on_foreign_page =
     (Inr (Json (submission_reply
                   (parseWithZod (schemaForUpdateProfile demo_is_email)
                      (formData (request profile_on_foreign_page)))
                   (FieldErrors [(''userId'', [''You can only update your own profile''])]))
             \<lparr>status = 200, headers = []\<rparr>), demo_world)"
proof -
  have auth: "isAuthenticated demo_auth (request profile_on_foreign_page) =
                Some (identity_of ''u1'' alice)"
    by (simp add: profile_on_foreign_page_def demo_session)
  have other: "identity_of ''u1'' alice ''id'' \<noteq>
                 Some (JStr (param_userId (params profile_on_foreign_page)))"
    by (simp add: demo_identity_id profile_on_foreign_page_def)
  from profile_update_rejects_foreign_page
         [OF auth other, of demo_is_email demo_updateProfile demo_world] auth other
  show ?thesis by simp
qed

section \<open>Sign-in: failures look alike\<close>

lemma signin_catch_generic:
  "(\<forall>i. e = ThrownResponse i \<longrightarrow> status i \<noteq> 302) \<Longrightarrow>
   signin_catch s e =
     Json (submission_reply s (FieldErrors [(''email'', [''Invalid email or password''])]))
       \<lparr>status = 401, headers = []\<rparr>"
  by (cases e) simp_all

lemma signin_action_failure:
  assumes valid: "result (parseWithZod (signInSchema is_email) (formData (request args))) = Inr s"
    and fails: "find (\<lambda>(k, r). u_email r = v_email s) (users w) = None \<or>
                (\<exists>k row. find (\<lambda>(k, r). u_email r = v_email s) (users w) = Some (k, row) \<and>
                   \<not> compare B (v_password s) (u_password row))"
  shows "fst (signin_action B A is_email w args) =
           Json (Reply (formData (request args)) []
                   (FieldErrors [(''email'', [''Invalid email or password''])]))
             \<lparr>status = 401, headers = []\<rparr>"
proof -
  from valid have sch: "signInSchema is_email (\<lambda>name. coerceString (formData (request args) name)) = Inr s"
    by (simp add: parseWithZod_def)
  from signInSchema_accepts [OF sch]
  have fd: "formData (request args) ''email'' = Some (v_email s)"
    "formData (request args) ''password'' = Some (v_password s)"
    by simp_all
  from fails have "\<exists>e w'. authenticate B A w (request args) (Some ''/'') = (Rejected e, w') \<and>
      (\<forall>i. e = ThrownResponse i \<longrightarrow> status i \<noteq> 302)"
    by (auto simp add: authenticate_def fd findUnique_email_def Let_def)
  then obtain e w' where a: "authenticate B A w (request args) (Some ''/'') = (Rejected e, w')"
    and e: "\<forall>i. e = ThrownResponse i \<longrightarrow> status i \<noteq> 302"
    by blast
  show ?thesis
    by (simp add: signin_action_def parseWithZod_def sch a signin_catch_generic [OF e]
        submission_reply_def)
qed

text \<open>
  Claim C6. Take two sign-in submissions that pass validation, one with an e-mail that
  no stored user has, the other with a stored e-mail and a password that does not verify.
  Both are answered with the field error ``Invalid email or password'' on the
  \<^verbatim>\<open>email\<close> field and status 401; the two responses differ in nothing but the echo of
  the submitted form, and are equal when the forms are.
\<close>

theorem signin_failures_indistinguishable:
  assumes v1: "result (parseWithZod (signInSchema is_email) (formData (request a1))) = Inr s1"
    and v2: "result (parseWithZod (signInSchema is_email) (formData (request a2))) = Inr s2"
    and unknown: "find (\<lambda>(k, r). u_email r = v_email s1) (users w1) = None"
    and known: "find (\<lambda>(k, r). u_email r = v_email s2) (users w2) = Some (k, row)"
    and wrong: "\<not> compare B (v_password s2) (u_password row)"
  shows "fst (signin_action B A is_email w1 a1) =
           Json (Reply (formData (request a1)) []
                   (FieldErrors [(''email'', [''Invalid email or password''])]))
             \<lparr>status = 401, headers = []\<rparr> \<and>
         fst (signin_action B A is_email w2 a2) =
           Json (Reply (formData (request a2)) []
                   (FieldErrors [(''email'', [''Invalid email or password''])]))
             \<lparr>status = 401, headers = []\<rparr> \<and>
         (formData (request a1) = formData (request a2) \<longrightarrow>
            fst (signin_action B A is_email w1 a1) = fst (signin_action B A is_email w2 a2))"
proof -
  have 1: "fst (signin_action B A is_email w1 a1) =
           Json (Reply (formData (request a1)) []
                   (FieldErrors [(''email'', [''Invalid email or password''])]))
             \<lparr>status = 401, headers = []\<rparr>"
    using unknown by (intro signin_action_failure [OF v1]) simp
  have 2: "fst (signin_action B A is_email w2 a2) =
           Json (Reply (formData (request a2)) []
                   (FieldErrors [(''email'', [''Invalid email or password''])]))
             \<lparr>status = 401, headers = []\<rparr>"
    using known wrong by (intro signin_action_failure [OF v2]) simp
  from 1 2 show ?thesis by simp
qed

theorem signin_failures_indistinguishable_witness:
  "find (\<lambda>(k, r). u_email r = ''carol@example.com'') (users demo_world) = None \<and>
   find (\<lambda>(k, r). u_email r = ''alice@example.com'') (users demo_world) = Some (''u1'', alice) \<and>
   \<not> compare demo_bcrypt ''Wrong0ne1'' (u_password alice) \<and>
   fst (signin_action demo_bcrypt demo_auth demo_is_email demo_world signin_unknown) =
     Json (Reply (formData (request signin_unknown)) []
             (FieldErrors [(''email'', [''Invalid email or password''])]))
       \<lparr>status = 401, headers = []\<rparr> \<and>
   fst (signin_action demo_bcrypt demo_auth demo_is_email demo_world signin_wrong) =
     Json (Reply (formData (request signin_wrong)) []
             (FieldErrors [(''email'', [''Invalid email or password''])]))
       \<lparr>status = 401, headers = []\<rparr>"
proof -
  have unknown: "find (\<lambda>(k, r). u_email r =
                   v_email \<lparr>v_email = ''carol@example.com'', v_password = ''Passw0rd''\<rparr>)
                   (users demo_world) = None"
    by (simp add: demo_world_def alice_def bob_def)
  have known: "find (\<lambda>(k, r). u_email r =
                 v_email \<lparr>v_email = ''alice@example.com'', v_password = ''Wrong0ne1''\<rparr>)
                 (users demo_world) = Some (''u1'', alice)"
    by (simp add: demo_world_def alice_def bob_def)
  have wrong: "\<not> compare demo_bcrypt
                   (v_password \<lparr>v_email = ''alice@example.com'', v_password = ''Wrong0ne1''\<rparr>)
                   (u_password alice)"
    by (simp add: demo_bcrypt_def alice_def)
  from signin_failures_indistinguishable
         [OF signin_unknown_valid signin_wrong_valid unknown known wrong, of demo_auth]
       unknown known wrong
  show ?thesis by simp
qed

section \<open>Sign-in: the password policy comes first\<close>

text \<open>
  Claim C10. A sign-in submission whose password violates the policy (length between 8
  and 255, a letter and a digit) is answered with field-level validation errors, among
  them one on the \<^verbatim>\<open>password\<close> field, and the world is returned as it was: the
  authenticator is not invoked, whatever the store holds and whatever the hasher would
  say about that password.
\<close>

theorem signin_policy_gate:
  assumes pw: "formData (request args) ''password'' = Some p"
    and bad: "\<not> meets_policy p"
  shows "\<exists>errs msgs. (''password'', msgs) \<in> set errs \<and> msgs \<noteq> [] \<and>
           signin_action B A is_email w args =
             (Json (Reply (formData (request args)) errs NoOptions)
                \<lparr>status = 200, headers = []\<rparr>, w)"
proof -
  from signInSchema_rejects [of "formData (request args)" p is_email, OF pw bad]
  obtain errs msgs where e: "signInSchema is_email (\<lambda>name. coerceString (formData (request args) name)) = Inl errs"
    "(''password'', msgs) \<in> set errs" "msgs \<noteq> []"
    by blast
  have "signin_action B A is_email w args =
          (Json (Reply (formData (request args)) errs NoOptions) \<lparr>status = 200, headers = []\<rparr>, w)"
    by (simp add: signin_action_def parseWithZod_def e(1) submission_reply_def json_def)
  with e(2,3) show ?thesis by blast
qed

theorem signin_policy_gate_witness:
  "formData (request signin_short) ''password'' = Some ''abc'' \<and>
   \<not> meets_policy ''abc'' \<and>
   find (\<lambda>(k, r). u_email r = ''bob@example.com'') (users demo_world) = Some (''u2'', bob) \<and>
   compare demo_bcrypt ''abc'' (u_password bob) \<and>
   fst (authenticate demo_bcrypt demo_auth demo_world (request signin_short) (Some ''/'')) =
     Rejected (ThrownResponse
       \<lparr>status = 302, headers = [(''Location'', ''/''), (''Set-Cookie'', ''sid=Bob'')]\<rparr>) \<and>
   snd (signin_action demo_bcrypt demo_auth demo_is_email demo_world signin_short) = demo_world \<and>
   (\<exists>errs. fst (signin_action demo_bcrypt demo_auth demo_is_email demo_world signin_short) =
      Json (Reply (formData (request signin_short)) errs NoOptions)
        \<lparr>status = 200, headers = []\<rparr>)"
proof -
  have pw: "formData (request signin_short) ''password'' = Some ''abc''"
    by (simp add: signin_short_def)
  have bad: "\<not> meets_policy ''abc''"
    by (simp add: meets_policy_def)
  have stored: "find (\<lambda>(k, r). u_email r = ''bob@example.com'') (users demo_world) =
                  Some (''u2'', bob)"
    by (simp add: demo_world_def alice_def bob_def)
  have same: "compare demo_bcrypt ''abc'' (u_password bob)"
    by (simp add: demo_bcrypt_def bob_def)
  have would: "fst (authenticate demo_bcrypt demo_auth demo_world (request signin_short)
                      (Some ''/'')) =
     Rejected (ThrownResponse
       \<lparr>status = 302, headers = [(''Location'', ''/''), (''Set-Cookie'', ''sid=Bob'')]\<rparr>)"
    by (simp add: authenticate_def findUnique_email_def next_fault_def issue_def identity_of_def
        signin_short_def demo_world_def demo_bcrypt_def demo_auth_def demo_storage_def
        alice_def bob_def Let_def)
  from signin_policy_gate [OF pw bad, of demo_bcrypt demo_auth demo_is_email demo_world]
  have "snd (signin_action demo_bcrypt demo_auth demo_is_email demo_world signin_short) =
          demo_world \<and>
        (\<exists>errs. fst (signin_action demo_bcrypt demo_auth demo_is_email demo_world signin_short) =
           Json (Reply (formData (request signin_short)) errs NoOptions)
             \<lparr>status = 200, headers = []\<rparr>)"
    by auto
  with pw bad stored same would show ?thesis by simp
qed

section \<open>Profile update: the session is committed\<close>

text \<open>
  Claim C8. After a successful profile update the action reads the session of the
  request's cookie, stores under the session key the authenticated identity merged with
  the updated fields (without \<^verbatim>\<open>bio\<close>), commits the session and answers the success
  reply with the committed cookie as its \<^verbatim>\<open>Set-Cookie\<close> header.
\<close>

theorem profile_update_commits_session:
  assumes auth: "isAuthenticated A (request args) = Some u"
    and own: "u ''id'' = Some (JStr (param_userId (params args)))"
    and valid: "result (parseWithZod (schemaForUpdateProfile is_email) (formData (request args))) = Inr v"
    and updated: "updateProfile w
                    \<lparr>up_userId = param_userId (params args), up_image = v_image v,
                     up_name = v_name v, up_email = v_pemail v, up_bio = v_bio v\<rparr> =
                  (Inr updated, w')"
  shows "profile_action A is_email updateProfile w args =
           (Inr (Json (Reply (formData (request args)) [] NoOptions)
                   \<lparr>status = 200,
                    headers =
                      [(''Set-Cookie'',
                        commitSession (sessionStorage A)
                          ((getSession (sessionStorage A) (cookie (request args)))
                             (sessionKey A \<mapsto> u ++ updated(''bio'' := None))))]\<rparr>),
            w')"
proof -
  from valid have "payload (parseWithZod (schemaForUpdateProfile is_email) (formData (request args))) =
      formData (request args)"
    by (simp add: parseWithZod_def)
  with valid updated show ?thesis
    by (simp add: profile_action_def auth own Let_def submission_reply_def)
qed

theorem profile_update_commits_session_witness:
  "isAuthenticated demo_auth (request profile_on_own_page) = Some (identity_of ''u1'' alice) \<and>
   profile_action demo_auth demo_is_email demo_updateProfile demo_world profile_on_own_page =
     (Inr (Json (Reply (formData (request profile_on_own_page)) [] NoOptions)
             \<lparr>status = 200, headers = [(''Set-Cookie'', ''sid=Alicia'')]\<rparr>), demo_world)"
proof -
  have auth: "isAuthenticated demo_auth (request profile_on_own_page) =
                Some (identity_of ''u1'' alice)"
    by (simp add: profile_on_own_page_def demo_session)
  have own: "identity_of ''u1'' alice ''id'' =
               Some (JStr (param_userId (params profile_on_own_page)))"
    by (simp add: demo_identity_id profile_on_own_page_def)
  have upd: "demo_updateProfile demo_world
               \<lparr>up_userId = param_userId (params profile_on_own_page),
                up_image = v_image \<lparr>v_image = Some ''a.png'', v_name = ''Alicia'',
                                     v_pemail = ''alice@example.com'', v_bio = Some ''hi''\<rparr>,
                up_name = v_name \<lparr>v_image = Some ''a.png'', v_name = ''Alicia'',
                                   v_pemail = ''alice@example.com'', v_bio = Some ''hi''\<rparr>,
                up_email = v_pemail \<lparr>v_image = Some ''a.png'', v_name = ''Alicia'',
                                      v_pemail = ''alice@example.com'', v_bio = Some ''hi''\<rparr>,
                up_bio = v_bio \<lparr>v_image = Some ''a.png'', v_name = ''Alicia'',
                                 v_pemail = ''alice@example.com'', v_bio = Some ''hi''\<rparr>\<rparr> =
             (Inr [''id'' \<mapsto> JStr ''u1'', ''name'' \<mapsto> JStr ''Alicia'',
                   ''email'' \<mapsto> JStr ''alice@example.com'', ''bio'' \<mapsto> JStr ''hi''],
              demo_world)"
    by (simp add: demo_updateProfile_def profile_on_own_page_def)
  have cookie: "commitSession (sessionStorage demo_auth)
                  ((getSession (sessionStorage demo_auth) (cookie (request profile_on_own_page)))
                     (sessionKey demo_auth \<mapsto>
                        identity_of ''u1'' alice ++
                        [''id'' \<mapsto> JStr ''u1'', ''name'' \<mapsto> JStr ''Alicia'',
                         ''email'' \<mapsto> JStr ''alice@example.com'', ''bio'' \<mapsto> JStr ''hi'']
                        (''bio'' := None))) = ''sid=Alicia''"
    by (simp add: demo_auth_def demo_storage_def map_add_def)
  note r = profile_update_commits_session
         [where A = demo_auth and args = profile_on_own_page and is_email = demo_is_email
            and updateProfile = demo_updateProfile and w = demo_world and w' = demo_world,
          OF auth own profile_on_own_page_valid upd]
  from r [unfolded cookie] auth show ?thesis by simp
qed

end
